theory Spec2Isabelle
  imports Main
begin

section \<open>JavaScript values used by PrometheusEditor.js\<close>

text \<open>
  The duration fields of the editor are JavaScript numbers, that is IEEE 754 doubles.
  The only numbers \<open>parseTimeString\<close> can produce are non-negative integers that a
  double holds exactly, \<open>+Infinity\<close> (a digit string of 309 digits or more) and, before
  the \<open>|| 0\<close> of the source, \<open>NaN\<close>. \<open>Num n\<close> is the double whose value is the integer
  \<open>n\<close>.
\<close>

datatype number = Num nat | Infinity | NaN

text \<open>JavaScript truthiness of a number (\<open>if (duration.hours)\<close>), and \<open>a || b\<close>.\<close>

fun truthy :: "number \<Rightarrow> bool" where
  "truthy (Num n) = (n \<noteq> 0)"
| "truthy Infinity = True"
| "truthy NaN = False"

definition logical_or :: "number \<Rightarrow> number \<Rightarrow> number" where
  "logical_or a b = (if truthy a then a else b)"

text \<open>
  The conversion of a mathematical integer to the nearest double (round to nearest,
  ties to even, 53 bits of significand; everything from \<open>2 ^ 1024\<close> on is
  \<open>Infinity\<close>). Below \<open>2 ^ 53\<close> every integer is a double. (For a numeral of more
  than 20 significant digits ECMA-262 lets \<open>parseInt\<close> approximate the value before it
  is rounded; the model rounds the exact value.)
\<close>

fun bitlen :: "nat \<Rightarrow> nat" where
  "bitlen n = (if n = 0 then 0 else Suc (bitlen (n div 2)))"

declare bitlen.simps [simp del]

definition to_double :: "nat \<Rightarrow> number" where
  "to_double n =
     (if n < 2 ^ 53 then Num n
      else
        let e = bitlen n - 53;
            q = n div 2 ^ e;
            r = n mod 2 ^ e;
            half = 2 ^ (e - 1);
            q' = (if half < r \<or> (r = half \<and> odd q) then q + 1 else q);
            v = q' * 2 ^ e
        in if 2 ^ 1024 \<le> v then Infinity else Num v)"

text \<open>Decimal digits: \<open>\d\<close> of a JavaScript regular expression is \<open>[0-9]\<close>.\<close>

definition is_digit :: "char \<Rightarrow> bool" where
  "is_digit c = (48 \<le> (of_char c :: nat) \<and> (of_char c :: nat) \<le> 57)"

definition digit_val :: "char \<Rightarrow> nat" where
  "digit_val c = of_char c - 48"

definition decimal :: "string \<Rightarrow> nat" where
  "decimal ds = foldl (\<lambda>a c. 10 * a + digit_val c) 0 ds"

text \<open>
  \<open>parseInt(x, 10)\<close> where \<open>x\<close> is a capture group of the duration regex: either
  \<open>undefined\<close> (the group did not take part in the match), which reads as the string
  "undefined" and has no leading digit, so the result is \<open>NaN\<close>; or a string, whose
  longest prefix of digits is read in base 10 and converted to a number. (The leading
  white space and the sign that \<open>parseInt\<close> also accepts cannot occur in a capture of
  \<open>\d+\<close>.)
\<close>

definition parseInt10 :: "string option \<Rightarrow> number" where
  "parseInt10 input =
     (case input of
        None \<Rightarrow> NaN
      | Some s \<Rightarrow>
          (let ds = takeWhile is_digit s
           in if ds = [] then NaN else to_double (decimal ds)))"

section \<open>DurationCodec: parseTimeString and getMostSignificantTime\<close>

record Duration =
  hours :: number
  minutes :: number
  seconds :: number

text \<open>
  One starred group \<open>((\d+)u)*\<close> of the regular expression
  \<open>/^((\d+)h)*((\d+)m)*((\d+)s)*$/\<close>, run on the rest \<open>s\<close> of the input: it
  consumes segments "digits then \<open>u\<close>" as long as there is one, and returns the inner
  capture of the last iteration (\<open>cap\<close> when there was none) with what is left.
  The greedy run is the only way the whole expression can match: a segment left
  unconsumed starts with a digit and ends in \<open>u\<close>, which neither a later group nor
  \<open>$\<close> accepts, and \<open>\d+\<close> that stops before the last digit is followed by a digit,
  not by the unit.
\<close>

function star_group :: "char \<Rightarrow> string option \<Rightarrow> string \<Rightarrow> string option \<times> string" where
  "star_group u cap s =
     (let ds = takeWhile is_digit s; r = dropWhile is_digit s
      in if ds \<noteq> [] \<and> r \<noteq> [] \<and> hd r = u then star_group u (Some ds) (tl r)
         else (cap, s))"
  by pat_completeness auto
termination
proof (relation "measure (\<lambda>(u, cap, s). length s)")
  show "wf (measure (\<lambda>(u, cap, s). length s))"
    by simp
next
  fix u :: char and cap :: "string option" and s ds r :: string
  assume "r = dropWhile is_digit s" and "ds \<noteq> [] \<and> r \<noteq> [] \<and> hd r = u"
  then have "length (tl r) < length r" and "length r \<le> length s"
    by (simp_all add: length_dropWhile_le)
  then show "((u, Some ds, tl r), (u, cap, s)) \<in> measure (\<lambda>(u, cap, s). length s)"
    by simp
qed

declare star_group.simps [simp del]

text \<open>
  \<open>timeStamp.match(durationRegex)\<close>: \<open>None\<close> is \<open>null\<close> (no match); on a match the
  triple holds the capture groups 2, 4 and 6, each \<open>None\<close> when it is \<open>undefined\<close>.
\<close>

definition durationRegex_match :: "string \<Rightarrow> (string option \<times> string option \<times> string option) option" where
  "durationRegex_match timeStamp =
     (let (g2, r1) = star_group (CHR ''h'') None timeStamp;
          (g4, r2) = star_group (CHR ''m'') None r1;
          (g6, r3) = star_group (CHR ''s'') None r2
      in if r3 = [] then Some (g2, g4, g6) else None)"

definition parseTimeString :: "string \<Rightarrow> Duration" where
  "parseTimeString timeStamp =
     (if timeStamp = [] then \<lparr>hours = Num 0, minutes = Num 0, seconds = Num 0\<rparr>
      else
        case durationRegex_match timeStamp of
          None \<Rightarrow> \<lparr>hours = Num 0, minutes = Num 0, seconds = Num 0\<rparr>
        | Some (g2, g4, g6) \<Rightarrow>
            \<lparr>hours = logical_or (parseInt10 g2) (Num 0),
             minutes = logical_or (parseInt10 g4) (Num 0),
             seconds = logical_or (parseInt10 g6) (Num 0)\<rparr>)"

record MostSignificantTime =
  timeNumber :: number
  timeUnit :: string

definition getMostSignificantTime :: "Duration \<Rightarrow> MostSignificantTime" where
  "getMostSignificantTime duration =
     (if truthy (hours duration) then \<lparr>timeNumber = hours duration, timeUnit = ''h''\<rparr>
      else if truthy (minutes duration) then \<lparr>timeNumber = minutes duration, timeUnit = ''m''\<rparr>
      else \<lparr>timeNumber = seconds duration, timeUnit = ''s''\<rparr>)"

text \<open>
  \<open>String(x)\<close> of a number, as the template literal of \<open>toAlertConfig\<close> applies it
  (ECMA-262, Number::toString, radix 10). A finite \<open>x\<close> is printed from the integer
  \<open>m\<close> with the fewest significant digits that still reads back as \<open>x\<close>: in plain
  decimal when \<open>m < 10 ^ 21\<close>, in exponent notation from there on. Below \<open>2 ^ 53\<close>
  every integer is a double, so that \<open>m\<close> is \<open>x\<close> itself.
\<close>

fun digits_of :: "nat \<Rightarrow> string" where
  "digits_of n =
     (if n < 10 then [char_of (48 + n)]
      else digits_of (n div 10) @ [char_of (48 + n mod 10)])"

declare digits_of.simps [simp del]

definition sig_candidates :: "nat \<Rightarrow> nat \<Rightarrow> nat list" where
  "sig_candidates x k =
     (let p = 10 ^ (length (digits_of x) - k);
          lo = (x div p) * p;
          hi = lo + p
      in if x - lo < hi - x \<or> (x - lo = hi - x \<and> even (x div p)) then [lo, hi]
         else [hi, lo])"

definition shortest_repr :: "nat \<Rightarrow> nat" where
  "shortest_repr x =
     (case List.find (\<lambda>m. to_double m = Num x)
             (concat (map (sig_candidates x) [1..<length (digits_of x)])) of
        Some m \<Rightarrow> m
      | None \<Rightarrow> x)"

fun strip_zeros :: "nat \<Rightarrow> nat" where
  "strip_zeros m = (if m = 0 \<or> m mod 10 \<noteq> 0 then m else strip_zeros (m div 10))"

declare strip_zeros.simps [simp del]

definition exponent_form :: "nat \<Rightarrow> string" where
  "exponent_form m =
     (let s = digits_of (strip_zeros m);
          e = digits_of (length (digits_of m) - 1)
      in if length s = 1 then s @ ''e+'' @ e
         else hd s # ''.'' @ tl s @ ''e+'' @ e)"

definition NumberToString :: "number \<Rightarrow> string" where
  "NumberToString x =
     (case x of
        NaN \<Rightarrow> ''NaN''
      | Infinity \<Rightarrow> ''Infinity''
      | Num n \<Rightarrow>
          if n < 2 ^ 53 then digits_of n
          else
            let m = shortest_repr n
            in if m < 10 ^ 21 then digits_of m else exponent_form m)"

text \<open>
  The spec's \<open>formatDuration\<close> is the template literal
  \<open>`${form.timeNumber}${form.timeUnit}`\<close> of \<open>toAlertConfig\<close>.
\<close>

definition formatDuration :: "number \<Rightarrow> string \<Rightarrow> string" where
  "formatDuration timeNumber' timeUnit' = NumberToString timeNumber' @ timeUnit'"

record FormState =
  ruleName :: string
  expression :: string
  severity :: string
  formTimeNumber :: number
  formTimeUnit :: string
  description :: string
  labels :: "string \<rightharpoonup> string"

record AlertConfig =
  alert :: string
  expr :: string
  alertLabels :: "string \<rightharpoonup> string"
  for' :: string
  annotations :: "string \<rightharpoonup> string"

definition toAlertConfig :: "FormState \<Rightarrow> AlertConfig" where
  "toAlertConfig form =
     \<lparr>alert = ruleName form,
      expr = expression form,
      alertLabels = (labels form)(''severity'' \<mapsto> severity form),
      for' = formatDuration (formTimeNumber form) (formTimeUnit form),
      annotations = [''description'' \<mapsto> description form]\<rparr>"

section \<open>The two duration grammars\<close>

text \<open>
  A segment is a non-empty string of digits followed by its unit letter. The spec's
  grammar \<open>(\d+h)?(\d+m)?(\d+s)?\<close> has at most one segment per unit, in the order
  hours, minutes, seconds; the grammar of the source's regular expression,
  \<open>(\d+h)*(\d+m)*(\d+s)*\<close>, has any number of them per unit, in the same order.
\<close>

definition digit_string :: "string \<Rightarrow> bool" where
  "digit_string ds = (ds \<noteq> [] \<and> list_all is_digit ds)"

definition segments :: "char \<Rightarrow> string list \<Rightarrow> string" where
  "segments u xs = concat (map (\<lambda>ds. ds @ [u]) xs)"

definition repeated_duration :: "string list \<Rightarrow> string list \<Rightarrow> string list \<Rightarrow> string" where
  "repeated_duration hs ms ss =
     segments (CHR ''h'') hs @ segments (CHR ''m'') ms @ segments (CHR ''s'') ss"

definition matches_repeated_grammar :: "string \<Rightarrow> bool" where
  "matches_repeated_grammar s =
     (\<exists>hs ms ss. list_all digit_string hs \<and> list_all digit_string ms \<and>
        list_all digit_string ss \<and> s = repeated_duration hs ms ss)"

definition opt_list :: "'a option \<Rightarrow> 'a list" where
  "opt_list x = (case x of None \<Rightarrow> [] | Some a \<Rightarrow> [a])"

definition spec_duration :: "string option \<Rightarrow> string option \<Rightarrow> string option \<Rightarrow> string" where
  "spec_duration ho mo so = repeated_duration (opt_list ho) (opt_list mo) (opt_list so)"

definition matches_spec_grammar :: "string \<Rightarrow> bool" where
  "matches_spec_grammar s =
     (\<exists>ho mo so. list_all digit_string (opt_list ho) \<and> list_all digit_string (opt_list mo) \<and>
        list_all digit_string (opt_list so) \<and> s = spec_duration ho mo so)"

text \<open>The base-10 value of a unit's segment when it is present, 0 when it is absent.\<close>

definition segment_value :: "string option \<Rightarrow> nat" where
  "segment_value x = (case x of None \<Rightarrow> 0 | Some ds \<Rightarrow> decimal ds)"

text \<open>The number read from the last segment of a unit, 0 when the unit has none.\<close>

definition last_value :: "string list \<Rightarrow> number" where
  "last_value xs = (if xs = [] then Num 0 else to_double (decimal (last xs)))"

definition zero_duration :: Duration where
  "zero_duration = \<lparr>hours = Num 0, minutes = Num 0, seconds = Num 0\<rparr>"

text \<open>
  The inner capture of a starred group after the match: \<open>undefined\<close> when the group
  made no iteration, the digits of its last iteration otherwise.
\<close>

definition last_opt :: "'a list \<Rightarrow> 'a option" where
  "last_opt xs = (if xs = [] then None else Some (last xs))"

text \<open>
  The way a duration reaches the form and leaves it again: \<open>fromAlertConfig\<close> shows
  \<open>getMostSignificantTime (parseTimeString timeString)\<close>, and \<open>toAlertConfig\<close> writes
  the number and the unit shown back as one string.
\<close>

definition reduce_then_format :: "Duration \<Rightarrow> string" where
  "reduce_then_format d =
     (let t = getMostSignificantTime d in formatDuration (timeNumber t) (timeUnit t))"

section \<open>ThresholdExtractor: getThresholdExpression\<close>

text \<open>
  Modelled from the spec: the \<open>Labels\<close> class of the module \<open>prometheus/PromQL\<close>, which
  is not among the sources. A label is a pair of a name and a value; a \<open>Labels\<close> object
  is a mutable collection of labels. Objects live in a store and are named by their
  address, so that two references to one object can be told from two equal copies. The
  store is the list of the objects allocated so far, an object's address is its index.
\<close>

type_synonym label = "string \<times> string"

type_synonym ref = nat

type_synonym heap = "label list list"

text \<open>Modelled from the spec: \<open>new PromQL.Labels()\<close>, a fresh empty collection.\<close>

definition new_Labels :: "heap \<Rightarrow> ref \<times> heap" where
  "new_Labels h = (length h, h @ [[]])"

text \<open>
  Modelled from the spec: \<open>labels.removeByName(name)\<close>, which drops every label of that
  name from the collection itself ("mutating the selector's own label set in place"). The
  source discards the call's result and goes on with the receiver.
\<close>

definition removeByName :: "string \<Rightarrow> label list \<Rightarrow> label list" where
  "removeByName name ls = filter (\<lambda>l. fst l \<noteq> name) ls"

text \<open>
  Modelled from the spec: the same call on an object of the store. The collection at the
  address \<open>r\<close> is replaced by itself without the labels of that name; no object is
  allocated and no other object changes.
\<close>

definition Labels_removeByName :: "ref \<Rightarrow> string \<Rightarrow> heap \<Rightarrow> heap" where
  "Labels_removeByName r name h = h[r := removeByName name (h ! r)]"

text \<open>
  Modelled from the spec: the operators and the node variants of the expression AST of
  \<open>prometheus/PromQL\<close>. A comparator is an object of the class \<open>BinaryComparator\<close>, made
  from one of the six relational operators; every other binary operator (arithmetic, set)
  is a primitive string. Of the node variants the extractor tells apart
  \<open>BinaryOperation\<close>, \<open>InstantSelector\<close> and \<open>Scalar\<close>; \<open>OtherExpression\<close> stands for the
  rest. The name and the labels of a selector may be absent (the source reads them with
  \<open>|| ''\<close> and \<open>|| new PromQL.Labels()\<close>).
\<close>

datatype BinaryComparatorType = CmpEq | CmpNe | CmpGt | CmpLt | CmpGe | CmpLe

text \<open>Modelled from the spec: \<open>new PromQL.BinaryComparator(op)\<close>.\<close>

datatype BinaryComparator = BinaryComparator BinaryComparatorType

text \<open>
  Modelled from the spec: the type \<open>PromQL.BinaryOperator\<close>, a primitive string or a
  comparator object.
\<close>

datatype BinaryOperator = PrimitiveOperator string | ComparatorOperator BinaryComparator

text \<open>
  Modelled from the spec: \<open>PromQL.Expression\<close>. The labels of a selector are a
  reference to a \<open>Labels\<close> object of the store; the value of a scalar is not looked
  at by the source and stays a type parameter.
\<close>

datatype 'v Expression =
    BinaryOperation BinaryOperator "'v Expression" "'v Expression"
  | InstantSelector "string option" "ref option"
  | Scalar 'v
  | OtherExpression

text \<open>
  Modelled from the spec: the type \<open>ThresholdExpression\<close> of
  \<open>ToggleableExpressionEditor\<close>, with the four fields the source fills in. The field
  \<open>value\<close> is written \<open>value'\<close>.
\<close>

record 'v ThresholdExpression =
  metricName :: string
  filters :: ref
  comparator :: BinaryComparator
  value' :: 'v

text \<open>\<open>operator instanceof Object\<close> holds of an object and of no primitive.\<close>

fun asBinaryComparator :: "BinaryOperator \<Rightarrow> BinaryComparator option" where
  "asBinaryComparator (ComparatorOperator c) = Some c"
| "asBinaryComparator (PrimitiveOperator s) = None"

text \<open>
  The function returns its result together with the store it leaves: the label removal
  comes before the comparator guard, so it has happened on both ways out.
\<close>

fun getThresholdExpression :: "'v Expression \<Rightarrow> heap \<Rightarrow> 'v ThresholdExpression option \<times> heap" where
  "getThresholdExpression (BinaryOperation operator (InstantSelector selectorName selectorLabels) (Scalar v)) h =
     (let metricName' = (case selectorName of None \<Rightarrow> [] | Some name \<Rightarrow> name);
          threshold = v;
          (filters', h1) = (case selectorLabels of Some r \<Rightarrow> (r, h) | None \<Rightarrow> new_Labels h);
          h2 = Labels_removeByName filters' ''networkID'' h1
      in case asBinaryComparator operator of
           None \<Rightarrow> (None, h2)
         | Some comparator' \<Rightarrow>
             (Some \<lparr>metricName = metricName', filters = filters', comparator = comparator',
                    value' = threshold\<rparr>, h2))"
| "getThresholdExpression e h = (None, h)"




section \<open>The parsing lifecycle: useThresholdExpressionEditorState\<close>

text \<open>
  The hook's arguments. \<open>expression\<close> is \<open>rule?.expression\<close> of the caller: a string, or
  absent.
\<close>

record HookArgs =
  ruleExpression :: "string option"
  thresholdEditorEnabled :: "bool option"

text \<open>
  What React keeps for the hook between renders (two state cells, the memo cell of
  \<open>useMemo\<close> and the dependencies the effect last ran with), and what the hook does to
  the world: the messages handed to \<open>enqueueSnackbar\<close>, the arguments \<open>Parse\<close> was
  called with, and the store.
\<close>

record 'v Hook =
  thresholdExpression :: "'v ThresholdExpression"
  advancedEditorMode :: bool
  parsedExpression :: "'v Expression option"
  effectDeps :: "'v Expression option"
  snackbar :: "string list"
  parseCalls :: "string option list"
  heap :: heap

text \<open>
  The external parser \<open>Parse\<close> of \<open>prometheus/PromQLParser\<close> is a parameter: given the
  source and the first free address, it either throws (\<open>None\<close>) or returns an
  expression with the label collections it has allocated for it.
\<close>

type_synonym 'v Parser = "string option \<Rightarrow> nat \<Rightarrow> ('v Expression \<times> label list list) option"

definition parseErrorMessage :: string where
  "parseErrorMessage = ''Error parsing alert expression. You can still edit this using the advanced editor, but you won't be able to use the UI expression editor.''"

text \<open>\<open>!expression\<close>: an absent string and the empty string are falsy.\<close>

definition falsy_string :: "string option \<Rightarrow> bool" where
  "falsy_string x = (x = None \<or> x = Some [])"

text \<open>\<open>!thresholdEditorEnabled\<close>: \<open>undefined\<close>, \<open>null\<close> and \<open>false\<close> are falsy.\<close>

definition falsy_bool :: "bool option \<Rightarrow> bool" where
  "falsy_bool x = (x \<noteq> Some True)"

text \<open>The function handed to \<open>useEffect\<close> (lines 518 to 536 of the source).\<close>

definition effect :: "HookArgs \<Rightarrow> 'v Hook \<Rightarrow> 'v Hook" where
  "effect args st =
     (if falsy_string (ruleExpression args) then st\<lparr>advancedEditorMode := False\<rparr>
      else
        case parsedExpression st of
          Some e \<Rightarrow>
            (case getThresholdExpression e (heap st) of
               (Some newThresholdExpression, h) \<Rightarrow>
                 st\<lparr>advancedEditorMode := False, thresholdExpression := newThresholdExpression,
                    heap := h\<rparr>
             | (None, h) \<Rightarrow> st\<lparr>advancedEditorMode := True, heap := h\<rparr>)
        | None \<Rightarrow> st\<lparr>snackbar := snackbar st @ [parseErrorMessage]\<rparr>)"

text \<open>
  One call of the hook, with the effect that follows the render. On the first render, in
  the order of the body: the initial threshold is built (with a fresh \<open>Labels\<close>), the
  mode starts as \<open>!thresholdEditorEnabled\<close>, \<open>useMemo\<close> calls \<open>Parse(expression)\<close>
  inside \<open>try\<close>/\<open>catch\<close>, and the effect runs once the render is done. On a later
  render of the mounted hook the argument of \<open>useState\<close> is evaluated again (one more
  \<open>Labels\<close> that nothing refers to) and ignored, \<open>useMemo\<close> with the dependencies
  \<open>[]\<close> returns its cell without calling \<open>Parse\<close>, and the effect runs again only
  when its dependency \<open>parsedExpression\<close> differs from the one it last ran with.
\<close>

datatype 'v Render = FirstRender heap | LaterRender "'v Hook"

fun useThresholdExpressionEditorState :: "('v::zero) Parser \<Rightarrow> HookArgs \<Rightarrow> 'v Render \<Rightarrow> 'v Hook" where
  "useThresholdExpressionEditorState Parse args (FirstRender h0) =
     (let (fresh, h1) = new_Labels h0;
          initial = \<lparr>metricName = [], filters = fresh, comparator = BinaryComparator CmpEq,
                     value' = 0\<rparr>;
          (parsed, h2) =
            (case Parse (ruleExpression args) (length h1) of
               None \<Rightarrow> (None, h1)
             | Some (e, objs) \<Rightarrow> (Some e, h1 @ objs))
      in effect args
           \<lparr>thresholdExpression = initial,
            advancedEditorMode = falsy_bool (thresholdEditorEnabled args),
            parsedExpression = parsed,
            effectDeps = parsed,
            snackbar = [],
            parseCalls = [ruleExpression args],
            heap = h2\<rparr>)"
| "useThresholdExpressionEditorState Parse args (LaterRender st) =
     (let (unused, h1) = new_Labels (heap st);
          st1 = st\<lparr>heap := h1\<rparr>
      in if parsedExpression st1 \<noteq> effectDeps st1
         then effect args (st1\<lparr>effectDeps := parsedExpression st1\<rparr>)
         else st1)"

text \<open>The first render of the hook, and a later render with the same arguments.\<close>

definition mount :: "('v::zero) Parser \<Rightarrow> HookArgs \<Rightarrow> heap \<Rightarrow> 'v Hook" where
  "mount Parse args h0 = useThresholdExpressionEditorState Parse args (FirstRender h0)"

definition rerender :: "('v::zero) Parser \<Rightarrow> HookArgs \<Rightarrow> 'v Hook \<Rightarrow> 'v Hook" where
  "rerender Parse args st = useThresholdExpressionEditorState Parse args (LaterRender st)"

section \<open>Properties of the duration codec\<close>

lemma parseTimeString_empty: "parseTimeString [] = zero_duration"
  by (simp add: parseTimeString_def zero_duration_def)

lemma unit_not_digit:
  "\<not> is_digit (CHR ''h'')" "\<not> is_digit (CHR ''m'')" "\<not> is_digit (CHR ''s'')"
  by (simp_all add: is_digit_def)

lemma takeWhile_digits:
  assumes "list_all is_digit ds" and "\<not> is_digit c"
  shows "takeWhile is_digit (ds @ c # r) = ds" and "dropWhile is_digit (ds @ c # r) = c # r"
  using assms by (simp_all add: list_all_iff takeWhile_append2 dropWhile_append2)

lemma star_group_Nil: "star_group u cap [] = (cap, [])"
  by (simp add: star_group.simps)

lemma star_group_segment:
  assumes "digit_string ds" and "\<not> is_digit u"
  shows "star_group u cap (ds @ u # r) = star_group u (Some ds) r"
proof -
  from assms have "list_all is_digit ds" and "ds \<noteq> []"
    by (simp_all add: digit_string_def)
  with assms(2) show ?thesis
    by (subst star_group.simps) (simp add: takeWhile_digits)
qed

lemma star_group_other:
  assumes "list_all is_digit ds" and "\<not> is_digit c" and "c \<noteq> u"
  shows "star_group u cap (ds @ c # r) = (cap, ds @ c # r)"
  using assms by (subst star_group.simps) (simp add: takeWhile_digits)

lemma segments_Nil: "segments u [] = []"
  by (simp add: segments_def)

lemma segments_Cons: "segments u (ds # xs) = ds @ u # segments u xs"
  by (simp add: segments_def)

lemma star_group_segments:
  assumes "list_all digit_string xs" and "\<not> is_digit u"
  shows "star_group u cap (segments u xs @ r) =
         star_group u (if xs = [] then cap else Some (last xs)) r"
  using assms
proof (induction xs arbitrary: cap)
  case Nil
  then show ?case by (simp add: segments_Nil)
next
  case (Cons ds xs)
  then have "star_group u cap (segments u (ds # xs) @ r) = star_group u (Some ds) (segments u xs @ r)"
    by (simp add: segments_Cons star_group_segment)
  with Cons show ?case by simp
qed

text \<open>What is left after a unit's segments does not start with a segment of that unit.\<close>

lemma star_group_stops:
  assumes "list_all digit_string xs" and "\<not> is_digit c" and "c \<noteq> u"
    and "r = [] \<or> (\<exists>ds t. list_all is_digit ds \<and> r = ds @ c' # t \<and> \<not> is_digit c' \<and> c' \<noteq> u)"
  shows "star_group u cap (segments c xs @ r) = (cap, segments c xs @ r)"
proof (cases xs)
  case Nil
  with assms(4) show ?thesis
    by (auto simp: segments_Nil star_group_Nil star_group_other)
next
  case (Cons ds ys)
  with assms(1) have "list_all is_digit ds"
    by (simp add: digit_string_def)
  with assms(2,3) Cons show ?thesis
    by (simp add: segments_Cons star_group_other)
qed

lemma durationRegex_match_repeated:
  assumes "list_all digit_string hs" and "list_all digit_string ms" and "list_all digit_string ss"
  shows "durationRegex_match (repeated_duration hs ms ss) = Some (last_opt hs, last_opt ms, last_opt ss)"
proof -
  let ?S = "segments (CHR ''s'') ss" and ?M = "segments (CHR ''m'') ms"
  have s_end: "star_group (CHR ''s'') None ?S = (last_opt ss, [])"
    using star_group_segments [OF assms(3) unit_not_digit(3), of None "[]"]
    by (simp add: star_group_Nil last_opt_def)
  have m_stop: "star_group (CHR ''m'') c ?S = (c, ?S)" for c
    using star_group_stops [OF assms(3) unit_not_digit(3), of "CHR ''m''" "[]" _ c]
    by simp
  have m_end: "star_group (CHR ''m'') None (?M @ ?S) = (last_opt ms, ?S)"
    using star_group_segments [OF assms(2) unit_not_digit(2), of None ?S]
    by (simp add: m_stop last_opt_def)
  have h_stop: "star_group (CHR ''h'') c (?M @ ?S) = (c, ?M @ ?S)" for c
  proof (cases ss)
    case Nil
    then show ?thesis
      using star_group_stops [OF assms(2) unit_not_digit(2), of "CHR ''h''" "[]" _ c]
      by (simp add: segments_Nil)
  next
    case (Cons ds ys)
    with assms(3) have "list_all is_digit ds"
      by (simp add: digit_string_def)
    then have "\<exists>ds t. list_all is_digit ds \<and> ?S = ds @ CHR ''s'' # t \<and> \<not> is_digit (CHR ''s'') \<and> CHR ''s'' \<noteq> CHR ''h''"
      using Cons by (auto simp: segments_Cons unit_not_digit)
    then show ?thesis
      using star_group_stops [OF assms(2) unit_not_digit(2), of "CHR ''h''" ?S "CHR ''s''" c]
      by simp
  qed
  have h_end: "star_group (CHR ''h'') None (repeated_duration hs ms ss) = (last_opt hs, ?M @ ?S)"
    using star_group_segments [OF assms(1) unit_not_digit(1), of None "?M @ ?S"]
    by (simp add: h_stop repeated_duration_def last_opt_def)
  show ?thesis
    by (simp add: durationRegex_match_def h_end m_end s_end)
qed

lemma star_group_sound:
  assumes "\<not> is_digit u"
  shows "star_group u cap s = (cap', r) \<Longrightarrow> \<exists>xs. list_all digit_string xs \<and> s = segments u xs @ r"
proof (induction u cap s rule: star_group.induct)
  case (1 u cap s)
  let ?ds = "takeWhile is_digit s" and ?r = "dropWhile is_digit s"
  show ?case
  proof (cases "?ds \<noteq> [] \<and> ?r \<noteq> [] \<and> hd ?r = u")
    case True
    with "1.prems" have "star_group u (Some ?ds) (tl ?r) = (cap', r)"
      by (subst (asm) star_group.simps) simp
    with "1.IH" [OF refl refl True] "1.prems" assms obtain xs
      where xs: "list_all digit_string xs" "tl ?r = segments u xs @ r"
      by blast
    have "list_all is_digit ?ds"
      by (auto simp: list_all_iff dest: set_takeWhileD)
    with True have ds: "digit_string ?ds"
      by (simp add: digit_string_def)
    from True have "?r = u # tl ?r"
      by (cases ?r) auto
    then have "s = ?ds @ u # tl ?r"
      by (metis takeWhile_dropWhile_id)
    with xs ds have "list_all digit_string (?ds # xs) \<and> s = segments u (?ds # xs) @ r"
      by (simp add: segments_Cons)
    then show ?thesis by blast
  next
    case False
    with "1.prems" have "s = r"
      by (subst (asm) star_group.simps) (auto simp: Let_def)
    then have "list_all digit_string [] \<and> s = segments u [] @ r"
      by (simp add: segments_Nil)
    then show ?thesis by blast
  qed
qed

lemma durationRegex_match_sound:
  assumes "durationRegex_match s = Some caps"
  shows "matches_repeated_grammar s"
proof -
  obtain g2 r1 where h: "star_group (CHR ''h'') None s = (g2, r1)"
    by (cases "star_group (CHR ''h'') None s")
  obtain g4 r2 where m: "star_group (CHR ''m'') None r1 = (g4, r2)"
    by (cases "star_group (CHR ''m'') None r1")
  obtain g6 r3 where sec: "star_group (CHR ''s'') None r2 = (g6, r3)"
    by (cases "star_group (CHR ''s'') None r2")
  from assms h m sec have "r3 = []"
    by (simp add: durationRegex_match_def split: if_splits)
  from star_group_sound [OF unit_not_digit(1) h] obtain hs
    where hs: "list_all digit_string hs" "s = segments (CHR ''h'') hs @ r1" by blast
  from star_group_sound [OF unit_not_digit(2) m] obtain ms
    where ms: "list_all digit_string ms" "r1 = segments (CHR ''m'') ms @ r2" by blast
  from star_group_sound [OF unit_not_digit(3) sec] \<open>r3 = []\<close> obtain ss
    where ss: "list_all digit_string ss" "r2 = segments (CHR ''s'') ss" by auto
  from hs ms ss have "s = repeated_duration hs ms ss"
    by (simp add: repeated_duration_def)
  with hs ms ss show ?thesis
    unfolding matches_repeated_grammar_def by blast
qed

lemma to_double_not_NaN: "to_double n \<noteq> NaN"
  by (simp add: to_double_def Let_def)

lemma to_double_or_zero: "logical_or (to_double n) (Num 0) = to_double n"
  using to_double_not_NaN [of n] by (cases "to_double n") (auto simp: logical_or_def)

lemma to_double_exact: "n < 2 ^ 53 \<Longrightarrow> to_double n = Num n"
  by (simp add: to_double_def)

lemma parseInt10_digit_string:
  assumes "digit_string ds"
  shows "parseInt10 (Some ds) = to_double (decimal ds)"
proof -
  from assms have digits: "\<forall>c\<in>set ds. is_digit c" and nonempty: "ds \<noteq> []"
    by (simp_all add: digit_string_def list_all_iff)
  from digits have whole: "takeWhile is_digit ds = ds"
    by simp
  show ?thesis
    using nonempty by (simp add: parseInt10_def Let_def whole del: takeWhile_eq_all_conv)
qed

lemma capture_value:
  assumes "list_all digit_string xs"
  shows "logical_or (parseInt10 (last_opt xs)) (Num 0) = last_value xs"
proof (cases "xs = []")
  case True
  then show ?thesis
    by (simp add: last_opt_def last_value_def parseInt10_def logical_or_def)
next
  case False
  with assms have "digit_string (last xs)"
    by (simp add: list_all_iff)
  with False show ?thesis
    by (simp add: last_opt_def last_value_def parseInt10_digit_string to_double_or_zero)
qed

lemma segments_empty: "list_all digit_string xs \<Longrightarrow> segments u xs = [] \<Longrightarrow> xs = []"
  by (cases xs) (simp_all add: segments_Cons)

lemma parseTimeString_repeated:
  assumes "list_all digit_string hs" and "list_all digit_string ms" and "list_all digit_string ss"
  shows "parseTimeString (repeated_duration hs ms ss) =
         \<lparr>hours = last_value hs, minutes = last_value ms, seconds = last_value ss\<rparr>"
proof (cases "repeated_duration hs ms ss = []")
  case True
  with assms have "hs = []" "ms = []" "ss = []"
    by (auto simp: repeated_duration_def dest: segments_empty)
  with True show ?thesis
    by (simp add: parseTimeString_def last_value_def)
next
  case False
  with assms show ?thesis
    by (simp add: parseTimeString_def durationRegex_match_repeated capture_value)
qed

lemma repeated_grammar_matched:
  assumes "matches_repeated_grammar s"
  shows "durationRegex_match s \<noteq> None"
  using assms unfolding matches_repeated_grammar_def
  by (auto simp: durationRegex_match_repeated)

text \<open>
  A string of the spec's grammar holds the letter \<open>h\<close> at most once: digits are not
  letters, and only an hours segment ends in \<open>h\<close>.
\<close>

lemma filter_unit_digits:
  assumes "list_all is_digit ds" and "\<not> is_digit c"
  shows "filter (\<lambda>x. x = c) ds = []"
  using assms by (auto simp: filter_empty_conv list_all_iff)

lemma count_unit_segments:
  assumes "list_all digit_string xs" and "\<not> is_digit c"
  shows "length (filter (\<lambda>x. x = c) (segments u xs)) = (if u = c then length xs else 0)"
  using assms
  by (induction xs) (auto simp: segments_Nil segments_Cons digit_string_def filter_unit_digits)

lemma spec_grammar_one_hour_segment:
  assumes "matches_spec_grammar s"
  shows "length (filter (\<lambda>x. x = CHR ''h'') s) \<le> 1"
proof -
  from assms obtain ho mo so
    where ok: "list_all digit_string (opt_list ho)" "list_all digit_string (opt_list mo)"
      "list_all digit_string (opt_list so)"
    and s: "s = spec_duration ho mo so"
    unfolding matches_spec_grammar_def by blast
  have "length (filter (\<lambda>x. x = CHR ''h'') s) = length (opt_list ho)"
    using ok unit_not_digit(1)
    by (simp add: s spec_duration_def repeated_duration_def count_unit_segments)
  then show ?thesis
    by (cases ho) (simp_all add: opt_list_def)
qed

lemma last_value_opt_list:
  assumes "segment_value x < 2 ^ 53"
  shows "last_value (opt_list x) = Num (segment_value x)"
  using assms
  by (cases x) (simp_all add: last_value_def opt_list_def segment_value_def to_double_exact)

lemmas codec_eval = parseTimeString_def durationRegex_match_def star_group.simps is_digit_def
  digit_val_def decimal_def parseInt10_def logical_or_def to_double_def Let_def

subsection \<open>Decimal numerals\<close>

lemma digit_char:
  assumes "d < 10"
  shows "is_digit (char_of (48 + d))" and "digit_val (char_of (48 + d)) = d"
  using assms by (simp_all add: is_digit_def digit_val_def)

lemma decimal_snoc: "decimal (ds @ [c]) = 10 * decimal ds + digit_val c"
  by (simp add: decimal_def)

lemma digits_of_digit_string: "digit_string (digits_of n)"
proof (induction n rule: digits_of.induct)
  case (1 n)
  show ?case
  proof (cases "n < 10")
    case True
    then show ?thesis
      by (subst digits_of.simps) (simp add: digit_string_def digit_char)
  next
    case False
    with 1 have "digit_string (digits_of (n div 10))" by simp
    moreover have "is_digit (char_of (48 + n mod 10))"
      by (rule digit_char) simp
    ultimately show ?thesis
      using False by (subst digits_of.simps) (simp add: digit_string_def)
  qed
qed

lemma decimal_digits_of: "decimal (digits_of n) = n"
proof (induction n rule: digits_of.induct)
  case (1 n)
  show ?case
  proof (cases "n < 10")
    case True
    then show ?thesis
      by (subst digits_of.simps) (simp add: decimal_def digit_char)
  next
    case False
    with 1 have "decimal (digits_of (n div 10)) = n div 10" by simp
    moreover have "digit_val (char_of (48 + n mod 10)) = n mod 10"
      by (rule digit_char) simp
    ultimately show ?thesis
      using False by (subst digits_of.simps) (simp add: decimal_snoc)
  qed
qed

lemma parseTimeString_one_segment:
  assumes "n < 2 ^ 53"
  shows "parseTimeString (digits_of n @ ''h'') = \<lparr>hours = Num n, minutes = Num 0, seconds = Num 0\<rparr>"
    and "parseTimeString (digits_of n @ ''m'') = \<lparr>hours = Num 0, minutes = Num n, seconds = Num 0\<rparr>"
    and "parseTimeString (digits_of n @ ''s'') = \<lparr>hours = Num 0, minutes = Num 0, seconds = Num n\<rparr>"
proof -
  have v: "last_value [digits_of n] = Num n" "last_value [] = Num 0"
    using assms by (simp_all add: last_value_def decimal_digits_of to_double_exact)
  show "parseTimeString (digits_of n @ ''h'') = \<lparr>hours = Num n, minutes = Num 0, seconds = Num 0\<rparr>"
    using parseTimeString_repeated [of "[digits_of n]" "[]" "[]"]
    by (simp add: v digits_of_digit_string repeated_duration_def segments_def)
  show "parseTimeString (digits_of n @ ''m'') = \<lparr>hours = Num 0, minutes = Num n, seconds = Num 0\<rparr>"
    using parseTimeString_repeated [of "[]" "[digits_of n]" "[]"]
    by (simp add: v digits_of_digit_string repeated_duration_def segments_def)
  show "parseTimeString (digits_of n @ ''s'') = \<lparr>hours = Num 0, minutes = Num 0, seconds = Num n\<rparr>"
    using parseTimeString_repeated [of "[]" "[]" "[digits_of n]"]
    by (simp add: v digits_of_digit_string repeated_duration_def segments_def)
qed

text \<open>The number \<open>10 ^ 21\<close> is a double, and the first one printed in exponent notation.\<close>

lemma bitlen_1e21: "bitlen 1000000000000000000000 = 70"
  by (simp add: bitlen.simps)

lemma to_double_1e21: "to_double 1000000000000000000000 = Num 1000000000000000000000"
  by (simp add: to_double_def bitlen_1e21)

lemma length_digits_1e21: "length (digits_of 1000000000000000000000) = 22"
  by (simp add: digits_of.simps)

lemma shortest_1e21: "shortest_repr 1000000000000000000000 = 1000000000000000000000"
  by (simp add: shortest_repr_def length_digits_1e21 sig_candidates_def upt_conv_Cons to_double_1e21)

lemma NumberToString_1e21: "NumberToString (Num 1000000000000000000000) = ''1e+21''"
  by (simp add: NumberToString_def shortest_1e21 exponent_form_def length_digits_1e21
      strip_zeros.simps digits_of.simps char_of_def bit_Suc_0_iff)

section \<open>Claims about the duration codec\<close>

text \<open>
  C3, as the spec states it, fails: \<open>"1h2h30m"\<close> does not match the spec's grammar
  \<open>(\d+h)?(\d+m)?(\d+s)?\<close> (it has two hours segments), and \<open>parseTimeString\<close> does not
  return the zero duration for it but 2 hours and 30 minutes.
\<close>

theorem parseTimeString_nonmatching_counterexample:
  "\<not> matches_spec_grammar ''1h2h30m'' \<and>
   parseTimeString ''1h2h30m'' = \<lparr>hours = Num 2, minutes = Num 30, seconds = Num 0\<rparr> \<and>
   parseTimeString ''1h2h30m'' \<noteq> zero_duration"
proof -
  have "\<not> matches_spec_grammar ''1h2h30m''"
    using spec_grammar_one_hour_segment [of "''1h2h30m''"] by auto
  moreover have "parseTimeString ''1h2h30m'' = \<lparr>hours = Num 2, minutes = Num 30, seconds = Num 0\<rparr>"
    by (simp add: codec_eval)
  ultimately show ?thesis
    by (simp add: zero_duration_def)
qed

text \<open>
  C3, amended: for every input string that does not match the grammar of the source's
  regular expression, \<open>(\d+h)*(\d+m)*(\d+s)*\<close> in that fixed order (wrong order, invalid
  characters, unrecognized units), \<open>parseTimeString\<close> returns the zero duration. The
  function has no way out but its three \<open>return\<close>s, so no error is raised: the model
  is a total function into \<open>Duration\<close>.
\<close>

theorem parseTimeString_nonmatching_zero:
  assumes "\<not> matches_repeated_grammar s"
  shows "parseTimeString s = zero_duration"
proof -
  from assms have "durationRegex_match s = None"
    using durationRegex_match_sound by (cases "durationRegex_match s") auto
  then show ?thesis
    by (simp add: parseTimeString_def zero_duration_def)
qed

text \<open>
  C3, witness: \<open>"garbage"\<close> (invalid characters), \<open>"30m1h"\<close> (wrong order) and \<open>"5d"\<close>
  (unrecognized unit) do not match, and give the zero duration.
\<close>

theorem parseTimeString_nonmatching_zero_witness:
  "\<not> matches_repeated_grammar ''garbage'' \<and> parseTimeString ''garbage'' = zero_duration \<and>
   \<not> matches_repeated_grammar ''30m1h'' \<and> parseTimeString ''30m1h'' = zero_duration \<and>
   \<not> matches_repeated_grammar ''5d'' \<and> parseTimeString ''5d'' = zero_duration"
proof -
  have "durationRegex_match ''garbage'' = None" "durationRegex_match ''30m1h'' = None"
    "durationRegex_match ''5d'' = None"
    by (simp_all add: codec_eval)
  then have no: "\<not> matches_repeated_grammar ''garbage''" "\<not> matches_repeated_grammar ''30m1h''"
    "\<not> matches_repeated_grammar ''5d''"
    using repeated_grammar_matched by blast+
  then show ?thesis
    using parseTimeString_nonmatching_zero [of "''garbage''"]
      parseTimeString_nonmatching_zero [of "''30m1h''"]
      parseTimeString_nonmatching_zero [of "''5d''"]
    by simp
qed

text \<open>
  C6, as the spec states it, fails for a segment whose value no double holds:
  \<open>"9007199254740993s"\<close> matches the spec's grammar, its seconds segment has the base-10
  value \<open>2 ^ 53 + 1\<close>, and \<open>parseInt\<close> returns the nearest double, \<open>2 ^ 53\<close>.
\<close>

theorem parseTimeString_exact_counterexample:
  "matches_spec_grammar ''9007199254740993s'' \<and>
   decimal ''9007199254740993'' = 9007199254740993 \<and>
   seconds (parseTimeString ''9007199254740993s'') = Num 9007199254740992"
proof -
  have "list_all digit_string (opt_list (Some ''9007199254740993''))"
    by (simp add: opt_list_def digit_string_def is_digit_def)
  moreover have "''9007199254740993s'' = spec_duration None None (Some ''9007199254740993'')"
    by (simp add: spec_duration_def repeated_duration_def segments_def opt_list_def)
  ultimately have "matches_spec_grammar ''9007199254740993s''"
    unfolding matches_spec_grammar_def
    by (intro exI [of _ None] exI [of _ "Some ''9007199254740993''"]) (simp add: opt_list_def)
  moreover have "decimal ''9007199254740993'' = 9007199254740993"
    by (simp add: decimal_def digit_val_def)
  moreover have "bitlen 9007199254740993 = 54"
    by (simp add: bitlen.simps)
  then have "seconds (parseTimeString ''9007199254740993s'') = Num 9007199254740992"
    by (simp add: codec_eval)
  ultimately show ?thesis by simp
qed

text \<open>
  C6, amended: for every string of the grammar \<open>(\d+h)?(\d+m)?(\d+s)?\<close> (each segment
  at most once, in that order, the empty string included) whose segments have values
  below \<open>2 ^ 53\<close>, \<open>parseTimeString\<close> returns the duration whose hours, minutes and
  seconds are the base-10 values of the segments present and 0 for the absent ones.
\<close>

theorem parseTimeString_spec_grammar:
  assumes "list_all digit_string (opt_list ho)" and "list_all digit_string (opt_list mo)"
    and "list_all digit_string (opt_list so)"
    and "segment_value ho < 2 ^ 53" and "segment_value mo < 2 ^ 53" and "segment_value so < 2 ^ 53"
  shows "parseTimeString (spec_duration ho mo so) =
         \<lparr>hours = Num (segment_value ho), minutes = Num (segment_value mo),
          seconds = Num (segment_value so)\<rparr>"
  using assms by (simp add: spec_duration_def parseTimeString_repeated last_value_opt_list)

text \<open>
  C6, witness: the spec's examples \<open>"2h30m15s"\<close> and \<open>"45m"\<close>, and the empty string.
\<close>

theorem parseTimeString_spec_grammar_witness:
  "spec_duration (Some ''2'') (Some ''30'') (Some ''15'') = ''2h30m15s'' \<and>
   parseTimeString ''2h30m15s'' = \<lparr>hours = Num 2, minutes = Num 30, seconds = Num 15\<rparr> \<and>
   spec_duration None (Some ''45'') None = ''45m'' \<and>
   parseTimeString ''45m'' = \<lparr>hours = Num 0, minutes = Num 45, seconds = Num 0\<rparr> \<and>
   spec_duration None None None = [] \<and>
   parseTimeString [] = \<lparr>hours = Num 0, minutes = Num 0, seconds = Num 0\<rparr>"
  using parseTimeString_spec_grammar [of "Some ''2''" "Some ''30''" "Some ''15''"]
    parseTimeString_spec_grammar [of None "Some ''45''" None]
    parseTimeString_spec_grammar [of None None None]
  by (simp add: spec_duration_def repeated_duration_def segments_def opt_list_def digit_string_def
      is_digit_def segment_value_def decimal_def digit_val_def)

text \<open>
  C7: for every duration (no field of which is \<open>NaN\<close>, which is no duration of the
  spec and which \<open>parseTimeString\<close> never returns), \<open>getMostSignificantTime\<close> returns
  the magnitude and the unit of the first nonzero field in the order hours, minutes,
  seconds, and \<open>{0, "s"}\<close> when all three are zero.
\<close>

theorem getMostSignificantTime_precedence:
  assumes "hours d \<noteq> NaN" and "minutes d \<noteq> NaN"
  shows "getMostSignificantTime d =
           (if hours d \<noteq> Num 0 then \<lparr>timeNumber = hours d, timeUnit = ''h''\<rparr>
            else if minutes d \<noteq> Num 0 then \<lparr>timeNumber = minutes d, timeUnit = ''m''\<rparr>
            else if seconds d \<noteq> Num 0 then \<lparr>timeNumber = seconds d, timeUnit = ''s''\<rparr>
            else \<lparr>timeNumber = Num 0, timeUnit = ''s''\<rparr>)"
proof -
  have "truthy x = (x \<noteq> Num 0)" if "x \<noteq> NaN" for x
    using that by (cases x) simp_all
  with assms show ?thesis
    by (simp add: getMostSignificantTime_def)
qed

text \<open>
  C7, witness: the spec's examples \<open>{2,30,15}\<close> and \<open>{0,0,0}\<close>, and a duration whose
  first nonzero field is the minutes.
\<close>

theorem getMostSignificantTime_precedence_witness:
  "getMostSignificantTime \<lparr>hours = Num 2, minutes = Num 30, seconds = Num 15\<rparr> =
     \<lparr>timeNumber = Num 2, timeUnit = ''h''\<rparr> \<and>
   getMostSignificantTime \<lparr>hours = Num 0, minutes = Num 30, seconds = Num 15\<rparr> =
     \<lparr>timeNumber = Num 30, timeUnit = ''m''\<rparr> \<and>
   getMostSignificantTime \<lparr>hours = Num 0, minutes = Num 0, seconds = Num 0\<rparr> =
     \<lparr>timeNumber = Num 0, timeUnit = ''s''\<rparr>"
  using getMostSignificantTime_precedence [of "\<lparr>hours = Num 2, minutes = Num 30, seconds = Num 15\<rparr>"]
    getMostSignificantTime_precedence [of "\<lparr>hours = Num 0, minutes = Num 30, seconds = Num 15\<rparr>"]
    getMostSignificantTime_precedence [of "\<lparr>hours = Num 0, minutes = Num 0, seconds = Num 0\<rparr>"]
  by simp

text \<open>
  C8, as the spec states it, fails from \<open>10 ^ 21\<close> on: the duration of \<open>10 ^ 21\<close> hours
  has one nonzero field, it is shown as \<open>"1e+21h"\<close>, and \<open>parseTimeString\<close> reads that
  string as the zero duration.
\<close>

theorem reduce_format_round_trip_counterexample:
  "reduce_then_format \<lparr>hours = Num 1000000000000000000000, minutes = Num 0, seconds = Num 0\<rparr> =
     ''1e+21h'' \<and>
   parseTimeString ''1e+21h'' = \<lparr>hours = Num 0, minutes = Num 0, seconds = Num 0\<rparr> \<and>
   parseTimeString
     (reduce_then_format \<lparr>hours = Num 1000000000000000000000, minutes = Num 0, seconds = Num 0\<rparr>) \<noteq>
     \<lparr>hours = Num 1000000000000000000000, minutes = Num 0, seconds = Num 0\<rparr>"
  by (simp add: reduce_then_format_def getMostSignificantTime_def formatDuration_def NumberToString_1e21
     parseTimeString_def durationRegex_match_def star_group.simps is_digit_def)

text \<open>
  C8, amended: for every duration with exactly one nonzero field, of magnitude
  \<open>n < 2 ^ 53\<close> and unit \<open>u\<close>, \<open>getMostSignificantTime\<close> and then the formatting of
  \<open>toAlertConfig\<close> yield exactly the decimal numeral of \<open>n\<close> followed by \<open>u\<close>, and
  \<open>parseTimeString\<close> on that string recovers the duration.
\<close>

theorem reduce_format_round_trip:
  assumes "0 < n" and "n < 2 ^ 53"
    and "d = \<lparr>hours = Num n, minutes = Num 0, seconds = Num 0\<rparr> \<and> u = ''h'' \<or>
         d = \<lparr>hours = Num 0, minutes = Num n, seconds = Num 0\<rparr> \<and> u = ''m'' \<or>
         d = \<lparr>hours = Num 0, minutes = Num 0, seconds = Num n\<rparr> \<and> u = ''s''"
  shows "reduce_then_format d = digits_of n @ u \<and> decimal (digits_of n) = n \<and>
         parseTimeString (reduce_then_format d) = d"
  using assms
  by (auto simp: reduce_then_format_def getMostSignificantTime_def formatDuration_def
      NumberToString_def parseTimeString_one_segment decimal_digits_of)

text \<open>C8, witness: 5 minutes are shown as \<open>"5m"\<close> and 12 hours as \<open>"12h"\<close>.\<close>

theorem reduce_format_round_trip_witness:
  "reduce_then_format \<lparr>hours = Num 0, minutes = Num 5, seconds = Num 0\<rparr> = ''5m'' \<and>
   parseTimeString ''5m'' = \<lparr>hours = Num 0, minutes = Num 5, seconds = Num 0\<rparr> \<and>
   reduce_then_format \<lparr>hours = Num 12, minutes = Num 0, seconds = Num 0\<rparr> = ''12h'' \<and>
   parseTimeString ''12h'' = \<lparr>hours = Num 12, minutes = Num 0, seconds = Num 0\<rparr>"
  using reduce_format_round_trip [of 5 "\<lparr>hours = Num 0, minutes = Num 5, seconds = Num 0\<rparr>" "''m''"]
    reduce_format_round_trip [of 12 "\<lparr>hours = Num 12, minutes = Num 0, seconds = Num 0\<rparr>" "''h''"]
  by (auto simp: digits_of.simps char_of_def bit_Suc_0_iff)

text \<open>
  C10: \<open>parseTimeString\<close> accepts every string in which the segments of a unit are
  repeated (any number of hours segments, then of minutes segments, then of seconds
  segments), and returns for each unit the number read from the last segment of that
  unit, 0 for a unit without a segment.
\<close>

theorem parseTimeString_repeated_segments:
  assumes "list_all digit_string hs" and "list_all digit_string ms" and "list_all digit_string ss"
  shows "durationRegex_match (repeated_duration hs ms ss) \<noteq> None \<and>
         parseTimeString (repeated_duration hs ms ss) =
           \<lparr>hours = last_value hs, minutes = last_value ms, seconds = last_value ss\<rparr>"
  using assms by (simp add: durationRegex_match_repeated parseTimeString_repeated)

text \<open>
  C10, witness: \<open>"1h2h30m"\<close>, which the spec's grammar does not have, is read as 2 hours
  and 30 minutes.
\<close>

theorem parseTimeString_repeated_segments_witness:
  "repeated_duration [''1'', ''2''] [''30''] [] = ''1h2h30m'' \<and>
   \<not> matches_spec_grammar ''1h2h30m'' \<and>
   durationRegex_match ''1h2h30m'' \<noteq> None \<and>
   parseTimeString ''1h2h30m'' = \<lparr>hours = Num 2, minutes = Num 30, seconds = Num 0\<rparr>"
proof -
  have "\<not> matches_spec_grammar ''1h2h30m''"
    using spec_grammar_one_hour_segment [of "''1h2h30m''"] by auto
  then show ?thesis
    using parseTimeString_repeated_segments [of "[''1'', ''2'']" "[''30'']" "[]"]
    by (simp add: repeated_duration_def segments_def digit_string_def is_digit_def last_value_def
        decimal_def digit_val_def to_double_def)
qed

section \<open>Claims about the threshold extractor\<close>






text \<open>
  C5: for every binary operation of an instant selector with a scalar whose operator is
  not a comparator (an arithmetic operator, say), \<open>getThresholdExpression\<close> returns
  \<open>null\<close>.
\<close>

theorem getThresholdExpression_not_comparator:
  "fst (getThresholdExpression
          (BinaryOperation (PrimitiveOperator op) (InstantSelector n l) (Scalar v)) h) = None"
  by (simp add: Let_def split: prod.splits)

text \<open>C5, witness: \<open>cpu_util{} + 90\<close>.\<close>

theorem getThresholdExpression_not_comparator_witness:
  "fst (getThresholdExpression
          (BinaryOperation (PrimitiveOperator ''+'') (InstantSelector (Some ''cpu_util'') (Some 0))
             (Scalar (90::int))) [[]]) = None"
  using getThresholdExpression_not_comparator
    [of "''+''" "Some ''cpu_util''" "Some 0" "90::int" "[[]]"]
  by simp

text \<open>
  C9: when \<open>getThresholdExpression\<close> succeeds on a selector that has a label
  collection, the filters of the record returned are that very collection (the same
  address \<open>r\<close>), no collection is allocated, and in the store left behind the
  collection has lost its \<open>networkID\<close> labels while every other object is as it was:
  the input AST has been changed in place.
\<close>

theorem getThresholdExpression_mutates_in_place:
  assumes "r < length h"
  shows "\<exists>t h'. getThresholdExpression
               (BinaryOperation (ComparatorOperator c) (InstantSelector n (Some r)) (Scalar v)) h =
               (Some t, h') \<and>
             filters t = r \<and> length h' = length h \<and>
             h' ! r = filter (\<lambda>l. fst l \<noteq> ''networkID'') (h ! r) \<and>
             (\<forall>r'. r' \<noteq> r \<longrightarrow> h' ! r' = h ! r')"
  using assms by (simp add: Labels_removeByName_def removeByName_def)

text \<open>
  C9, witness: the selector's collection at address 1 holds \<open>networkID="abc"\<close> before
  the call and not after it, and the record returned refers to address 1.
\<close>

theorem getThresholdExpression_mutates_in_place_witness:
  "snd (getThresholdExpression
     (BinaryOperation (ComparatorOperator (BinaryComparator CmpGt))
        (InstantSelector (Some ''cpu_util'') (Some 1)) (Scalar (90::int)))
     [[(''networkID'', ''x'')], [(''networkID'', ''abc''), (''host'', ''a'')]]) =
     [[(''networkID'', ''x'')], [(''host'', ''a'')]] \<and>
   map_option filters (fst (getThresholdExpression
     (BinaryOperation (ComparatorOperator (BinaryComparator CmpGt))
        (InstantSelector (Some ''cpu_util'') (Some 1)) (Scalar (90::int)))
     [[(''networkID'', ''x'')], [(''networkID'', ''abc''), (''host'', ''a'')]])) = Some 1"
  using getThresholdExpression_mutates_in_place
    [of 1 "[[(''networkID'', ''x'')], [(''networkID'', ''abc''), (''host'', ''a'')]]"
       "BinaryComparator CmpGt" "Some ''cpu_util''" "90::int"]
  by (auto simp: removeByName_def Labels_removeByName_def)

section \<open>Claims about the parsing lifecycle\<close>

lemma mount_empty_expression:
  assumes "ruleExpression args = None \<or> ruleExpression args = Some []"
  shows "advancedEditorMode (mount Parse args h0) = False"
    and "thresholdExpression (mount Parse args h0) =
           \<lparr>metricName = [], filters = length h0, comparator = BinaryComparator CmpEq, value' = 0\<rparr>"
    and "heap (mount Parse args h0) ! length h0 = []"
    and "snackbar (mount Parse args h0) = []"
    and "parseCalls (mount Parse args h0) = [ruleExpression args]"
    and "effectDeps (mount Parse args h0) = parsedExpression (mount Parse args h0)"
    and "length h0 < length (heap (mount Parse args h0))"
  using assms
  by (auto simp: mount_def effect_def falsy_string_def new_Labels_def Let_def nth_append
      split: option.splits prod.splits)

lemma rerender_settled:
  assumes "effectDeps st = parsedExpression st"
  shows "rerender Parse args st = st\<lparr>heap := heap st @ [[]]\<rparr>"
  using assms by (simp add: rerender_def new_Labels_def)

text \<open>
  On a parse failure of a non-empty expression the effect enqueues the warning once and
  leaves the mode as \<open>useState\<close> initialised it; a later render changes neither.
\<close>

lemma mount_parse_failure:
  assumes "\<not> falsy_string (ruleExpression args)"
    and "Parse (ruleExpression args) (Suc (length h0)) = None"
  shows "snackbar (mount Parse args h0) = [parseErrorMessage]"
    and "advancedEditorMode (mount Parse args h0) = falsy_bool (thresholdEditorEnabled args)"
    and "snackbar (rerender Parse args (mount Parse args h0)) = [parseErrorMessage]"
    and "advancedEditorMode (rerender Parse args (mount Parse args h0)) =
           falsy_bool (thresholdEditorEnabled args)"
  using assms
  by (simp_all add: mount_def effect_def new_Labels_def rerender_def)

text \<open>
  C1 at the input where the code departs from it: the threshold editor is enabled, the
  expression \<open>"up >"\<close> is not empty and the parser throws on it. The warning is enqueued
  exactly once and a later render does not enqueue it again, as C1 says; but the mode is
  still the simple one (\<open>advancedEditorMode = false\<close>), where C1 and the comment on the
  effect ("If the expression cannot be parsed, swaps to the advanced editor mode") say
  advanced.
\<close>

theorem parse_failure_keeps_simple_mode:
  "(let args = \<lparr>ruleExpression = Some ''up >'', thresholdEditorEnabled = Some True\<rparr>;
        st = mount (\<lambda>source base. None) args [] :: int Hook;
        st' = rerender (\<lambda>source base. None) args st
    in parseCalls st = [Some ''up >''] \<and> parsedExpression st = None \<and>
       snackbar st = [parseErrorMessage] \<and> advancedEditorMode st = False \<and>
       snackbar st' = [parseErrorMessage] \<and> advancedEditorMode st' = False)"
  by (simp add: mount_def effect_def new_Labels_def rerender_def falsy_string_def falsy_bool_def)

text \<open>
  C2, as the spec states it, fails: for the empty string and for an absent expression
  the first render does call the external parser, once, with that argument.
\<close>

theorem empty_expression_parser_counterexample:
  "parseCalls (mount (\<lambda>source base. None) \<lparr>ruleExpression = Some [], thresholdEditorEnabled = Some True\<rparr> []
     :: int Hook) = [Some []] \<and>
   parseCalls (mount (\<lambda>source base. None) \<lparr>ruleExpression = None, thresholdEditorEnabled = Some True\<rparr> []
     :: int Hook) = [None]"
  by (simp add: mount_def effect_def falsy_string_def new_Labels_def)

text \<open>
  C2, amended: for an empty or absent expression the lifecycle calls the external parser
  once, on the first render, and ignores what comes of it: whatever the parser does, no
  warning is enqueued and the hook ends in simple mode with the zero-value default
  threshold (metric name \<open>""\<close>, comparator \<open>==\<close>, value 0, empty filters); a later render
  calls the parser no more and changes none of this.
\<close>

theorem empty_expression_lifecycle:
  assumes "ruleExpression args = None \<or> ruleExpression args = Some []"
  shows "let st = mount Parse args h0; st' = rerender Parse args st
         in parseCalls st = [ruleExpression args] \<and> snackbar st = [] \<and>
            advancedEditorMode st = False \<and>
            thresholdExpression st =
              \<lparr>metricName = [], filters = length h0, comparator = BinaryComparator CmpEq,
               value' = 0\<rparr> \<and>
            heap st ! filters (thresholdExpression st) = [] \<and>
            parseCalls st' = [ruleExpression args] \<and> snackbar st' = [] \<and>
            advancedEditorMode st' = False \<and>
            thresholdExpression st' = thresholdExpression st \<and>
            heap st' ! filters (thresholdExpression st') = []"
proof -
  let ?st = "mount Parse args h0"
  note m = mount_empty_expression [OF assms]
  have r: "rerender Parse args ?st = ?st\<lparr>heap := heap ?st @ [[]]\<rparr>"
    by (rule rerender_settled) (rule m(6))
  have "heap (rerender Parse args ?st) ! length h0 = heap ?st ! length h0"
    using m(7) [of h0 Parse] by (simp add: r nth_append)
  then have "heap (rerender Parse args ?st) ! length h0 = []"
    by (simp add: m(3))
  then show ?thesis
    by (simp add: Let_def m(1,2,3,4,5) r)
qed

text \<open>
  C2, witness: the empty string, with a parser that throws on it and the threshold
  editor not enabled.
\<close>

theorem empty_expression_lifecycle_witness:
  "(let st = mount (\<lambda>source base. None) \<lparr>ruleExpression = Some [], thresholdEditorEnabled = None\<rparr> [] :: int Hook
    in parseCalls st = [Some []] \<and> snackbar st = [] \<and> advancedEditorMode st = False \<and>
       thresholdExpression st =
         \<lparr>metricName = [], filters = 0, comparator = BinaryComparator CmpEq, value' = 0\<rparr> \<and>
       heap st ! 0 = [])"
  using empty_expression_lifecycle [of "\<lparr>ruleExpression = Some [], thresholdEditorEnabled = None\<rparr>"
      "\<lambda>source base. None" "[]"]
  by (auto simp: Let_def)

end
